theory Spec2Isabelle
  imports Main "HOL-Library.Sublist"
begin

section \<open>The verification script \<open>verify_all_fixes.py\<close>\<close>

text \<open>
  The script drives a browser through a fixed sequence of calls of the automation
  library and checks the page after each of them. The page and the browser are outside
  the script, so they are a parameter of the model: an environment \<open>env\<close> that, given
  the present state of the outside world and a call, says whether the call raises and
  what the world is afterwards. Every theorem about \<open>run\<close> holds for every environment.
\<close>

subsection \<open>Exceptions\<close>

text \<open>
  The handler of \<open>run\<close> is \<open>except Exception as e\<close>: it catches the instances of
  \<open>Exception\<close> (the library's errors and timeouts, the \<open>AssertionError\<close> of a failed
  \<open>expect\<close>) and lets pass what is not one, of which \<open>KeyboardInterrupt\<close> stands here.
  The string is what \<open>str(e)\<close> gives.
\<close>

datatype exn = Exception string | KeyboardInterrupt

subsection \<open>Locators and calls\<close>

text \<open>
  \<open>page.locator(s)\<close> and \<open>l.locator(s)\<close> build a locator and touch nothing on the page;
  a locator is resolved when a call uses it.
\<close>

datatype locator = PageLocator string | ChildLocator locator string

text \<open>
  The class expectations are called with a plain string (\<open>"dark"\<close>, \<open>"active"\<close>) and
  with a compiled pattern (\<open>re.compile(r'active')\<close>); the argument is kept as written.
\<close>

datatype class_arg = Str string | Regex string

datatype action =
    SyncPlaywrightEnter
  | SyncPlaywrightExit
  | Launch bool
  | NewContext
  | NewPage
  | OnConsole
  | Goto string string
  | Reload string
  | Print string
  | Screenshot string
  | WaitForTimeout nat
  | Sleep nat
  | Click locator
  | Focus locator
  | KeyboardPress string
  | Fill locator string
  | ExpectToHaveClass locator class_arg
  | ExpectNotToHaveClass locator class_arg
  | ExpectToBeVisible locator
  | ExpectToHaveCount locator nat
  | BrowserClose

text \<open>
  \<open>Launch h\<close> is \<open>playwright.chromium.launch(headless=h)\<close>; \<open>Goto u s\<close> is
  \<open>page.goto(u, wait_until=s)\<close>; \<open>Reload s\<close> is \<open>page.reload(wait_until=s)\<close>;
  \<open>WaitForTimeout n\<close> waits \<open>n\<close> milliseconds; \<open>Sleep n\<close> is \<open>time.sleep\<close> of \<open>n\<close>
  milliseconds (the source writes \<open>0.05\<close> seconds, fifty milliseconds).
\<close>

subsection \<open>Constants of the script\<close>

text \<open>
  The f-string \<open>f"http://127.0.0.1:{PORT}"\<close> writes the port in decimal.
\<close>

fun digit_str :: "nat \<Rightarrow> string" where
  "digit_str n = [''0123456789'' ! n]"

fun str_nat :: "nat \<Rightarrow> string" where
  "str_nat n = (if n < 10 then digit_str n else str_nat (n div 10) @ digit_str (n mod 10))"

declare str_nat.simps [simp del]

definition PORT :: nat where
  "PORT = 3000"

definition BASE_URL :: string where
  "BASE_URL = ''http://127.0.0.1:'' @ str_nat PORT"

definition newline :: char where
  "newline = CHR 0x0A"

definition theme_switcher :: locator where
  "theme_switcher = PageLocator ''#theme-toggle-btn''"

definition html_element :: locator where
  "html_element = PageLocator ''html''"

definition salario_liquido_tab :: locator where
  "salario_liquido_tab = PageLocator ''.sidebar-link[data-calculator='salarioLiquido']''"

definition proventos_accordion_btn :: locator where
  "proventos_accordion_btn = PageLocator ''[data-details-for='salario-liquido-proventos-details']''"

definition chart_container :: locator where
  "chart_container = PageLocator ''#salario-liquido-chart-container''"

subsection \<open>The steps, in the order of the text\<close>

text \<open>Lines 6 to 11: what \<open>run\<close> does before its \<open>try\<close>.\<close>

definition before_try :: "action list" where
  "before_try = [Launch True, NewContext, NewPage, OnConsole]"

text \<open>Lines 19 to 31.\<close>

definition theme_initial :: "action list" where
  "theme_initial =
    [Goto (BASE_URL @ ''/?notest=true'') ''networkidle'',
     Print ''--- Verification Script Started ---'',
     Print (newline # ''[1.1] Testing Dark/Light Mode Toggle...''),
     ExpectNotToHaveClass html_element (Str ''dark''),
     ExpectToBeVisible (ChildLocator theme_switcher ''.sun-icon''),
     Screenshot ''jules-scratch/verification/01_light_mode_initial.png'',
     Print ''  - Initial light mode verified.'']"

text \<open>Lines 34 to 39.\<close>

definition theme_dark :: "action list" where
  "theme_dark =
    [Click theme_switcher,
     WaitForTimeout 500,
     ExpectToHaveClass html_element (Str ''dark''),
     ExpectToBeVisible (ChildLocator theme_switcher ''.moon-icon''),
     Screenshot ''jules-scratch/verification/02_dark_mode_toggled.png'',
     Print ''  - Toggled to dark mode verified.'']"

text \<open>Lines 42 to 48.\<close>

definition theme_persistence :: "action list" where
  "theme_persistence =
    [Print ''[1.2] Testing Theme Persistence...'',
     Reload ''networkidle'',
     WaitForTimeout 500,
     ExpectToHaveClass html_element (Str ''dark''),
     ExpectToBeVisible (ChildLocator theme_switcher ''.moon-icon''),
     Screenshot ''jules-scratch/verification/03_dark_mode_reloaded.png'',
     Print ''  - Dark mode persists after reload.'']"

text \<open>Lines 51 to 56.\<close>

definition theme_back :: "action list" where
  "theme_back =
    [Click theme_switcher,
     WaitForTimeout 500,
     Reload ''networkidle'',
     WaitForTimeout 500,
     ExpectNotToHaveClass html_element (Str ''dark''),
     Print ''  - Light mode persists after reload.'']"

text \<open>Lines 59 to 69.\<close>

definition accordion_start :: "action list" where
  "accordion_start =
    [Print (newline # ''[2.1] Testing Form Accordion Animation...''),
     Click salario_liquido_tab,
     WaitForTimeout 1000,
     ExpectNotToHaveClass proventos_accordion_btn (Str ''active'')]"

text \<open>Lines 72 to 76, under the comment \<open>Click to open\<close>.\<close>

definition accordion_open :: "action list" where
  "accordion_open =
    [Click proventos_accordion_btn,
     WaitForTimeout 500,
     ExpectToHaveClass proventos_accordion_btn (Regex ''active''),
     Screenshot ''jules-scratch/verification/04_accordion_open.png'',
     Print ''  - Form accordion opens correctly.'']"

text \<open>Lines 79 to 82, under the comment \<open>Click to close\<close>.\<close>

definition accordion_close :: "action list" where
  "accordion_close =
    [Click proventos_accordion_btn,
     WaitForTimeout 500,
     ExpectNotToHaveClass proventos_accordion_btn (Str ''active''),
     Print ''  - Form accordion closes correctly.'']"

text \<open>Lines 85 to 92; the loop \<open>for _ in range(5)\<close> runs its two calls five times.\<close>

definition accordion_rapid :: "action list" where
  "accordion_rapid =
    [Print ''[2.2] Stress-testing accordion...'']
    @ concat (replicate 5 [Click proventos_accordion_btn, Sleep 50])
    @ [WaitForTimeout 500,
       ExpectToHaveClass proventos_accordion_btn (Regex ''active''),
       Print ''  - Accordion stable after rapid interaction.'']"

text \<open>Lines 93 and 94, with the comment \<open>Close it for next test\<close>.\<close>

definition accordion_reset :: "action list" where
  "accordion_reset = [Click proventos_accordion_btn, WaitForTimeout 500]"

text \<open>Lines 97 to 108.\<close>

definition accordion_keyboard :: "action list" where
  "accordion_keyboard =
    [Print ''[2.3] Testing accordion keyboard navigation...'',
     Focus proventos_accordion_btn,
     KeyboardPress ''Enter'',
     WaitForTimeout 500,
     ExpectToHaveClass proventos_accordion_btn (Regex ''active''),
     Screenshot ''jules-scratch/verification/05_accordion_kbd_open.png'',
     Print ''  - Accordion opens with 'Enter' key.'',
     KeyboardPress ''Enter'',
     WaitForTimeout 500,
     ExpectNotToHaveClass proventos_accordion_btn (Str ''active''),
     Print ''  - Accordion closes with 'Enter' key.'']"

text \<open>Lines 111 to 121.\<close>

definition chart :: "action list" where
  "chart =
    [Print (newline # ''[3.1] Verifying SVG Chart Restoration...''),
     Fill (PageLocator ''#salario-bruto-salario-liquido'') ''5000'',
     Fill (PageLocator ''#desconto-saude-salario-liquido'') ''100'',
     WaitForTimeout 500,
     ExpectToBeVisible (ChildLocator chart_container ''svg.chart-svg''),
     ExpectToHaveCount (ChildLocator chart_container ''.chart-segment'') 3,
     Screenshot ''jules-scratch/verification/06_svg_chart_restored.png'',
     Print ''  - SVG chart is visible and rendered.'']"

text \<open>Lines 123 and 125.\<close>

definition finish :: "action list" where
  "finish =
    [Print ''[3.2] Verifying Duplicate ID Fix... SKIPPED'',
     Print (newline # ''--- Verification Script Finished Successfully ---'')]"

text \<open>The body of the \<open>try\<close>, lines 19 to 125.\<close>

definition scenario :: "action list" where
  "scenario =
     theme_initial @ theme_dark @ theme_persistence @ theme_back
     @ accordion_start @ accordion_open @ accordion_close @ accordion_rapid
     @ accordion_reset @ accordion_keyboard @ chart @ finish"

text \<open>Lines 128 and 129: the handler, for the caught exception \<open>e\<close>.\<close>

fun str_exn :: "exn \<Rightarrow> string" where
  "str_exn (Exception m) = m"
| "str_exn KeyboardInterrupt = []"

definition error_png :: string where
  "error_png = ''jules-scratch/verification/error.png''"

definition handler :: "exn \<Rightarrow> action list" where
  "handler e = [Print (''An error occurred: '' @ str_exn e), Screenshot error_png]"

subsection \<open>Running\<close>

text \<open>
  An environment answers a call with the exception it raises, if any, and the world
  after it. \<open>print\<close> writes to the standard output: it is taken not to raise and not to
  touch the page.
\<close>

type_synonym 'w env = "'w \<Rightarrow> action \<Rightarrow> exn option \<times> 'w"

fun exec :: "'w env \<Rightarrow> 'w \<Rightarrow> action \<Rightarrow> exn option \<times> 'w" where
  "exec env w (Print s) = (None, w)"
| "exec env w a = env w a"

text \<open>
  Statements in sequence: each call starts in the world the call before it left, and the
  first exception ends the sequence. The log holds every call made, with its exception.
\<close>

fun run_steps :: "'w env \<Rightarrow> 'w \<Rightarrow> action list \<Rightarrow> (action \<times> exn option) list \<times> 'w \<times> exn option" where
  "run_steps env w [] = ([], w, None)"
| "run_steps env w (a # as) =
     (case exec env w a of
        (Some e, w') \<Rightarrow> ([(a, Some e)], w', Some e)
      | (None, w') \<Rightarrow>
          (case run_steps env w' as of (t, w'', r) \<Rightarrow> ((a, None) # t, w'', r)))"

datatype outcome = Returned | Raised exn

record 'w result =
  trace :: "(action \<times> exn option) list"
  outcome :: outcome
  world :: 'w

text \<open>
  The \<open>try\<close> with its \<open>except Exception\<close>: the exception still pending after the body
  and the handler. An exception raised in the handler replaces the one handled.
\<close>

fun try_except :: "'w env \<Rightarrow> 'w \<Rightarrow> (action \<times> exn option) list \<times> 'w \<times> exn option" where
  "try_except env w =
     (case run_steps env w scenario of
        (t, w', None) \<Rightarrow> (t, w', None)
      | (t, w', Some KeyboardInterrupt) \<Rightarrow> (t, w', Some KeyboardInterrupt)
      | (t, w', Some (Exception m)) \<Rightarrow>
          (case run_steps env w' (handler (Exception m)) of
             (t', w'', r) \<Rightarrow> (t @ t', w'', r)))"

text \<open>
  \<open>run\<close>: the calls before the \<open>try\<close> are not guarded; the \<open>finally\<close> closes the browser
  whatever the \<open>try\<close> left pending, and an exception of \<open>browser.close()\<close> replaces it.
\<close>

definition run :: "'w env \<Rightarrow> 'w \<Rightarrow> 'w result" where
  "run env w =
     (case run_steps env w before_try of
        (t0, w0, Some e) \<Rightarrow> \<lparr>trace = t0, outcome = Raised e, world = w0\<rparr>
      | (t0, w0, None) \<Rightarrow>
          (case try_except env w0 of
             (t1, w1, pending) \<Rightarrow>
               (case exec env w1 BrowserClose of
                  (Some e, w2) \<Rightarrow>
                    \<lparr>trace = t0 @ t1 @ [(BrowserClose, Some e)], outcome = Raised e, world = w2\<rparr>
                | (None, w2) \<Rightarrow>
                    \<lparr>trace = t0 @ t1 @ [(BrowserClose, None)],
                     outcome = (case pending of None \<Rightarrow> Returned | Some e \<Rightarrow> Raised e),
                     world = w2\<rparr>)))"

text \<open>
  Lines 134 and 135: \<open>with sync_playwright() as playwright: run(playwright)\<close>. Leaving the
  \<open>with\<close> stops the driver on every path and does not swallow an exception.
\<close>

definition main :: "'w env \<Rightarrow> 'w \<Rightarrow> 'w result" where
  "main env w =
     (case exec env w SyncPlaywrightEnter of
        (Some e, w0) \<Rightarrow>
          \<lparr>trace = [(SyncPlaywrightEnter, Some e)], outcome = Raised e, world = w0\<rparr>
      | (None, w0) \<Rightarrow>
          (let r = run env w0 in
           case exec env (world r) SyncPlaywrightExit of
             (Some e, w1) \<Rightarrow>
               \<lparr>trace = (SyncPlaywrightEnter, None) # trace r @ [(SyncPlaywrightExit, Some e)],
                outcome = Raised e, world = w1\<rparr>
           | (None, w1) \<Rightarrow>
               \<lparr>trace = (SyncPlaywrightEnter, None) # trace r @ [(SyncPlaywrightExit, None)],
                outcome = outcome r, world = w1\<rparr>))"

text \<open>
  The script never calls \<open>sys.exit\<close>: the interpreter ends with status 0 when the module
  has run to its end, and with a status other than 0 (written 1) when an exception leaves it.
\<close>

fun exit_code :: "outcome \<Rightarrow> nat" where
  "exit_code Returned = 0"
| "exit_code (Raised e) = 1"

subsection \<open>Reading a log and the script\<close>

definition calls :: "'w result \<Rightarrow> action list" where
  "calls r = map fst (trace r)"

definition passed :: "action \<Rightarrow> action \<times> exn option" where
  "passed a = (a, None)"


fun is_print :: "action \<Rightarrow> bool" where
  "is_print (Print s) = True"
| "is_print a = False"

fun is_expect :: "action \<Rightarrow> bool" where
  "is_expect (ExpectToHaveClass l c) = True"
| "is_expect (ExpectNotToHaveClass l c) = True"
| "is_expect (ExpectToBeVisible l) = True"
| "is_expect (ExpectToHaveCount l n) = True"
| "is_expect a = False"

fun is_class_check :: "locator \<Rightarrow> action \<Rightarrow> bool" where
  "is_class_check l (ExpectToHaveClass l' c) = (l' = l)"
| "is_class_check l (ExpectNotToHaveClass l' c) = (l' = l)"
| "is_class_check l a = False"

text \<open>The calls that act on the page through the pointer or the keyboard.\<close>

fun is_input :: "action \<Rightarrow> bool" where
  "is_input (Click l) = True"
| "is_input (Focus l) = True"
| "is_input (KeyboardPress k) = True"
| "is_input (Fill l v) = True"
| "is_input a = False"

text \<open>
  The steps of the theme test: loading the page, the clicks on the theme switch and the
  class expectations on the root element.
\<close>

fun is_theme_step :: "action \<Rightarrow> bool" where
  "is_theme_step (Goto u s) = True"
| "is_theme_step (Reload s) = True"
| "is_theme_step (Click l) = (l = theme_switcher)"
| "is_theme_step a = is_class_check html_element a"

definition theme_activation :: "action \<Rightarrow> bool" where
  "theme_activation a = (a = Click theme_switcher)"

text \<open>
  The activations of the accordion button: a click on it, and a press of Enter, which
  the script sends only after \<open>proventos_accordion_btn.focus()\<close>.
\<close>

definition accordion_activation :: "action \<Rightarrow> bool" where
  "accordion_activation a = (a = Click proventos_accordion_btn \<or> a = KeyboardPress ''Enter'')"

text \<open>
  The class expectations of the script on the element \<open>obs\<close>, each with the number of
  activations since the expectation before it (\<open>True\<close> for \<open>to_have_class\<close>, \<open>False\<close> for
  \<open>not_to_have_class\<close>).
\<close>

fun toggle_log :: "(action \<Rightarrow> bool) \<Rightarrow> locator \<Rightarrow> nat \<Rightarrow> action list \<Rightarrow> (nat \<times> bool) list" where
  "toggle_log act obs n [] = []"
| "toggle_log act obs n (a # as) =
     (if act a then toggle_log act obs (Suc n) as
      else if is_class_check obs a
        then (n, case a of ExpectToHaveClass l c \<Rightarrow> True | _ \<Rightarrow> False) # toggle_log act obs 0 as
      else toggle_log act obs n as)"

text \<open>
  A toggle that is in state \<open>s\<close> is, after \<open>n\<close> activations, in state \<open>s\<close> when \<open>n\<close> is even
  and in the other state when \<open>n\<close> is odd: whether a list of expectations agrees with that.
\<close>

fun parity_ok :: "bool \<Rightarrow> (nat \<times> bool) list \<Rightarrow> bool" where
  "parity_ok s [] = True"
| "parity_ok s ((n, b) # l) = (b = (s \<noteq> odd n) \<and> parity_ok b l)"

text \<open>
  A logged call that leaves nothing pending: it returned, or it is a step of the
  scenario that raised an \<open>Exception\<close>, which the handler catches.
\<close>

definition harmless :: "action \<times> exn option \<Rightarrow> bool" where
  "harmless x =
     (case snd x of
        None \<Rightarrow> True
      | Some (Exception m) \<Rightarrow> fst x \<in> set scenario
      | Some KeyboardInterrupt \<Rightarrow> False)"

text \<open>What comes after the last element that satisfies \<open>P\<close>.\<close>

definition after_last :: "('a \<Rightarrow> bool) \<Rightarrow> 'a list \<Rightarrow> 'a list" where
  "after_last P xs = rev (takeWhile (\<lambda>x. \<not> P x) (rev xs))"

text \<open>
  The accordion test seen without the kind of activation: an activation of the button,
  a wait, an expectation on the class of the button.
\<close>

datatype accordion_event = Activation | Settle nat | HasClass class_arg | LacksClass class_arg

fun accordion_view :: "action \<Rightarrow> accordion_event option" where
  "accordion_view (Click l) = (if l = proventos_accordion_btn then Some Activation else None)"
| "accordion_view (KeyboardPress k) = (if k = ''Enter'' then Some Activation else None)"
| "accordion_view (WaitForTimeout n) = Some (Settle n)"
| "accordion_view (ExpectToHaveClass l c) =
     (if l = proventos_accordion_btn then Some (HasClass c) else None)"
| "accordion_view (ExpectNotToHaveClass l c) =
     (if l = proventos_accordion_btn then Some (LacksClass c) else None)"
| "accordion_view a = None"

subsection \<open>Environments used as concrete inputs\<close>

text \<open>Every call returns.\<close>

definition all_pass :: "unit env" where
  "all_pass w a = (None, w)"

text \<open>The calls that satisfy \<open>P\<close> raise \<open>e\<close>, the others return.\<close>

definition raises_on :: "(action \<Rightarrow> bool) \<Rightarrow> exn \<Rightarrow> unit env" where
  "raises_on P e w a = (if P a then Some e else None, w)"

text \<open>No server listens on the port: \<open>page.goto\<close> raises, the rest works.\<close>

definition goto_refused :: "unit env" where
  "goto_refused = raises_on (\<lambda>a. case a of Goto u s \<Rightarrow> True | _ \<Rightarrow> False)
     (Exception ''net::ERR_CONNECTION_REFUSED'')"

text \<open>The page is gone once it has been made: every call on it raises.\<close>

definition page_gone :: "unit env" where
  "page_gone = raises_on (\<lambda>a. a \<notin> {Launch True, NewContext, NewPage, OnConsole, BrowserClose,
       SyncPlaywrightEnter, SyncPlaywrightExit})
     (Exception ''Target closed'')"

text \<open>The browser cannot be started.\<close>

definition launch_fails :: "unit env" where
  "launch_fails = raises_on (\<lambda>a. a = Launch True) (Exception ''Executable not found'')"

text \<open>The browser starts, and \<open>browser.new_context()\<close> raises.\<close>

definition context_fails :: "unit env" where
  "context_fails = raises_on (\<lambda>a. a = NewContext) (Exception ''Protocol error'')"

text \<open>The chart does not have three segments: \<open>to_have_count(3)\<close> raises.\<close>

definition four_segments :: "unit env" where
  "four_segments = raises_on (\<lambda>a. case a of ExpectToHaveCount l n \<Rightarrow> True | _ \<Rightarrow> False)
     (Exception ''Locator expected to have count 3, actual 4'')"

text \<open>The user interrupts the script during the first click.\<close>

definition interrupted :: "unit env" where
  "interrupted = raises_on (\<lambda>a. a = Click theme_switcher) KeyboardInterrupt"

section \<open>Properties\<close>

subsection \<open>Sequences of calls\<close>

lemmas section_defs = theme_initial_def theme_dark_def theme_persistence_def theme_back_def
  accordion_start_def accordion_open_def accordion_close_def accordion_rapid_def
  accordion_reset_def accordion_keyboard_def chart_def finish_def

lemma five_times: "replicate 5 x = [x, x, x, x, x]"
  by (simp add: numeral_eq_Suc)

lemma BASE_URL_eq: "BASE_URL = ''http://127.0.0.1:3000''"
  by code_simp

lemma length_scenario: "length scenario = 76"
  by (simp add: scenario_def section_defs five_times)

lemma run_steps_None:
  "run_steps env w as = (t, w', None) \<Longrightarrow> t = map passed as"
  by (induction as arbitrary: w t) (auto simp: passed_def split: prod.splits option.splits)

lemma run_steps_Some:
  "run_steps env w as = (t, w', Some e) \<Longrightarrow>
     \<exists>k<length as. t = map passed (take k as) @ [(as ! k, Some e)] \<and> \<not> is_print (as ! k)"
proof (induction as arbitrary: w t)
  case Nil
  then show ?case by simp
next
  case (Cons a as)
  show ?case
  proof (cases "exec env w a")
    case (Pair x w1)
    show ?thesis
    proof (cases x)
      case None
      obtain t2 w2 r2 where rs: "run_steps env w1 as = (t2, w2, r2)"
        by (cases "run_steps env w1 as") auto
      with Cons.prems Pair None have t: "t = (a, None) # t2" and "r2 = Some e" and "w2 = w'"
        by auto
      with rs Cons.IH obtain k where "k < length as"
        and "t2 = map passed (take k as) @ [(as ! k, Some e)]" and "\<not> is_print (as ! k)"
        by blast
      with t have "Suc k < length (a # as) \<and>
        t = map passed (take (Suc k) (a # as)) @ [((a # as) ! Suc k, Some e)]
        \<and> \<not> is_print ((a # as) ! Suc k)"
        by (simp add: passed_def)
      then show ?thesis by blast
    next
      case (Some e')
      with Pair have "\<not> is_print a" by (cases a) auto
      moreover from Some Cons.prems Pair have "t = [(a, Some e)]" by auto
      ultimately have "0 < length (a # as) \<and>
        t = map passed (take 0 (a # as)) @ [((a # as) ! 0, Some e)] \<and> \<not> is_print ((a # as) ! 0)"
        by simp
      then show ?thesis by blast
    qed
  qed
qed

lemma run_steps_calls:
  "run_steps env w as = (t, w', r) \<Longrightarrow> \<exists>n\<le>length as. map fst t = take n as"
proof (cases r)
  case None
  assume "run_steps env w as = (t, w', r)"
  with None have "t = map passed as" by (simp add: run_steps_None)
  then have "map fst t = take (length as) as" by (simp add: passed_def comp_def)
  then show ?thesis by blast
next
  case (Some e)
  assume "run_steps env w as = (t, w', r)"
  with Some have "run_steps env w as = (t, w', Some e)" by simp
  from run_steps_Some [OF this]
  obtain k where k: "k < length as" "t = map passed (take k as) @ [(as ! k, Some e)]"
    by blast
  then have "map fst t = take (Suc k) as"
    by (simp add: passed_def comp_def take_Suc_conv_app_nth)
  moreover from k have "Suc k \<le> length as" by simp
  ultimately show ?thesis by blast
qed




lemma run_before_try_raises:
  "run_steps env w before_try = (t0, w0, Some e) \<Longrightarrow>
     run env w = \<lparr>trace = t0, outcome = Raised e, world = w0\<rparr>"
  by (simp add: run_def)

lemma run_scenario_passes:
  "run_steps env w before_try = (t0, w0, None) \<Longrightarrow>
   run_steps env w0 scenario = (t1, w1, None) \<Longrightarrow>
   exec env w1 BrowserClose = (y, w2) \<Longrightarrow>
     run env w = \<lparr>trace = t0 @ t1 @ [(BrowserClose, y)],
       outcome = (case y of Some e \<Rightarrow> Raised e | None \<Rightarrow> Returned), world = w2\<rparr>"
  by (simp add: run_def split: option.splits)

lemma run_scenario_interrupted:
  "run_steps env w before_try = (t0, w0, None) \<Longrightarrow>
   run_steps env w0 scenario = (t1, w1, Some KeyboardInterrupt) \<Longrightarrow>
   exec env w1 BrowserClose = (y, w2) \<Longrightarrow>
     run env w = \<lparr>trace = t0 @ t1 @ [(BrowserClose, y)],
       outcome = (case y of Some e \<Rightarrow> Raised e | None \<Rightarrow> Raised KeyboardInterrupt), world = w2\<rparr>"
  by (simp add: run_def split: option.splits)

lemma run_scenario_raises:
  "run_steps env w before_try = (t0, w0, None) \<Longrightarrow>
   run_steps env w0 scenario = (t1, w1, Some (Exception m)) \<Longrightarrow>
   exec env w1 (Screenshot error_png) = (x, w2) \<Longrightarrow>
   exec env w2 BrowserClose = (y, w3) \<Longrightarrow>
     run env w = \<lparr>trace = t0 @ t1 @ [(Print (''An error occurred: '' @ m), None),
         (Screenshot error_png, x), (BrowserClose, y)],
       outcome = (case y of Some e \<Rightarrow> Raised e
                  | None \<Rightarrow> (case x of Some e \<Rightarrow> Raised e | None \<Rightarrow> Returned)),
       world = w3\<rparr>"
  by (simp add: run_def handler_def split: option.splits)

subsection \<open>A run in which the chart has four segments\<close>

lemma four_segments_before:
  "run_steps four_segments () before_try = (map passed before_try, (), None)"
  by code_simp

lemma four_segments_scenario:
  "run_steps four_segments () scenario
       = (map passed (take 71 scenario)
            @ [(ExpectToHaveCount (ChildLocator chart_container ''.chart-segment'') 3,
                Some (Exception ''Locator expected to have count 3, actual 4''))],
          (), Some (Exception ''Locator expected to have count 3, actual 4''))"
  by code_simp

lemma four_segments_shot: "exec four_segments () (Screenshot error_png) = (None, ())"
  by code_simp

lemma four_segments_close: "exec four_segments () BrowserClose = (None, ())"
  by code_simp

subsection \<open>A step that raises\<close>

lemma scenario_no_error_png: "Screenshot error_png \<notin> set scenario"
  by (simp add: scenario_def section_defs five_times error_png_def)

lemma before_try_no_error_png: "Screenshot error_png \<notin> set before_try"
  by (simp add: before_try_def)

lemma filter_passed_absent:
  "a \<notin> set as \<Longrightarrow> filter (\<lambda>x. fst x = a) (map passed as) = []"
  by (induction as) (auto simp: passed_def)

lemma success_line_last:
  "Print (newline # ''--- Verification Script Finished Successfully ---'') \<notin> set (take 75 scenario)"
  by (simp add: scenario_def section_defs five_times)

lemma scenario_last_print: "is_print (scenario ! 75)"
  by (simp add: scenario_def section_defs five_times)

lemma success_line_not_before_try:
  "Print (newline # ''--- Verification Script Finished Successfully ---'') \<notin> set before_try"
  by (simp add: before_try_def)


text \<open>
  Claim C1, as the code has it. When the calls before the \<open>try\<close> have returned, a step
  of the scenario raises an \<open>Exception\<close> and the call of the error screenshot returns,
  then: the steps up to the one that raised are the only steps made, the handler and
  \<open>browser.close()\<close> follow them and none of the remaining steps does; the log holds
  exactly one call of the error screenshot, which returned; the line
  \<open>An error occurred: ...\<close> is printed and the line of success is not.
\<close>

theorem C1_failing_step:
  assumes before: "run_steps env w before_try = (t0, w0, None)"
      and fails: "run_steps env w0 scenario = (t1, w1, Some (Exception m))"
      and shot: "exec env w1 (Screenshot error_png) = (None, w2)"
  shows "(\<exists>k<length scenario.
            calls (run env w) =
              before_try @ take (Suc k) scenario @ handler (Exception m) @ [BrowserClose]
            \<and> (scenario ! k, Some (Exception m)) \<in> set (trace (run env w)))
         \<and> filter (\<lambda>x. fst x = Screenshot error_png) (trace (run env w))
             = [(Screenshot error_png, None)]
         \<and> (Print (''An error occurred: '' @ m), None) \<in> set (trace (run env w))
         \<and> Print (newline # ''--- Verification Script Finished Successfully ---'')
             \<notin> set (calls (run env w))"
proof -
  obtain y w3 where close: "exec env w2 BrowserClose = (y, w3)"
    by (cases "exec env w2 BrowserClose") auto
  from run_steps_None [OF before] have t0: "t0 = map passed before_try" .
  from run_steps_Some [OF fails] obtain k where k: "k < length scenario"
    and t1: "t1 = map passed (take k scenario) @ [(scenario ! k, Some (Exception m))]"
    and np: "\<not> is_print (scenario ! k)"
    by blast
  have tr: "trace (run env w) = t0 @ t1 @ [(Print (''An error occurred: '' @ m), None),
         (Screenshot error_png, None), (BrowserClose, y)]"
    by (simp add: run_scenario_raises [OF before fails shot close])
  have c: "calls (run env w) =
      before_try @ take (Suc k) scenario @ handler (Exception m) @ [BrowserClose]"
    using k by (simp add: calls_def tr t0 t1 passed_def comp_def handler_def
        take_Suc_conv_app_nth)
  have "(scenario ! k, Some (Exception m)) \<in> set (trace (run env w))"
    by (simp add: tr t1)
  with k c have first: "\<exists>k<length scenario.
            calls (run env w) =
              before_try @ take (Suc k) scenario @ handler (Exception m) @ [BrowserClose]
            \<and> (scenario ! k, Some (Exception m)) \<in> set (trace (run env w))"
    by blast
  have "Screenshot error_png \<notin> set (take k scenario)"
    using scenario_no_error_png by (meson in_set_takeD)
  moreover have "scenario ! k \<noteq> Screenshot error_png"
    using scenario_no_error_png k by (metis nth_mem)
  ultimately have second: "filter (\<lambda>x. fst x = Screenshot error_png) (trace (run env w))
             = [(Screenshot error_png, None)]"
    by (simp add: tr t0 t1 filter_passed_absent before_try_no_error_png)
  have third: "(Print (''An error occurred: '' @ m), None) \<in> set (trace (run env w))"
    by (simp add: tr)
  from k np scenario_last_print have "k \<noteq> 75" by auto
  with k have "Suc k \<le> 75" by (simp add: length_scenario)
  then have "set (take (Suc k) scenario) \<subseteq> set (take 75 scenario)"
    by (rule set_take_subset_set_take)
  with success_line_last
  have "Print (newline # ''--- Verification Script Finished Successfully ---'')
      \<notin> set (take (Suc k) scenario)"
    by blast
  then have fourth: "Print (newline # ''--- Verification Script Finished Successfully ---'')
             \<notin> set (calls (run env w))"
    using success_line_not_before_try by (simp add: c handler_def newline_def)
  from first second third fourth show ?thesis by blast
qed


text \<open>
  C1 at a concrete run: the chart has four segments, so \<open>to_have_count(3)\<close>, the
  seventy-second step, raises.
\<close>

theorem C1_failing_step_witness:
  "run_steps four_segments () before_try = (map passed before_try, (), None)
   \<and> run_steps four_segments () scenario
       = (map passed (take 71 scenario)
            @ [(ExpectToHaveCount (ChildLocator chart_container ''.chart-segment'') 3,
                Some (Exception ''Locator expected to have count 3, actual 4''))],
          (), Some (Exception ''Locator expected to have count 3, actual 4''))
   \<and> exec four_segments () (Screenshot error_png) = (None, ())
   \<and> filter (\<lambda>x. fst x = Screenshot error_png) (trace (run four_segments ()))
       = [(Screenshot error_png, None)]
   \<and> Print (newline # ''--- Verification Script Finished Successfully ---'')
       \<notin> set (calls (run four_segments ()))"
  using C1_failing_step [OF four_segments_before four_segments_scenario four_segments_shot]
    four_segments_before four_segments_scenario four_segments_shot
  by blast

text \<open>
  Claim C1 as stated does not hold for every failing step. When the page is gone,
  \<open>page.goto\<close> raises and so does the error screenshot of the handler: no artifact is
  captured and the exception leaves \<open>run\<close>. When the step raises \<open>KeyboardInterrupt\<close>,
  the handler does not run at all.
\<close>

theorem C1_counterexample:
  "trace (run page_gone ()) =
     [(Launch True, None), (NewContext, None), (NewPage, None), (OnConsole, None),
      (Goto ''http://127.0.0.1:3000/?notest=true'' ''networkidle'',
         Some (Exception ''Target closed'')),
      (Print ''An error occurred: Target closed'', None),
      (Screenshot ''jules-scratch/verification/error.png'', Some (Exception ''Target closed'')),
      (BrowserClose, None)]
   \<and> outcome (run page_gone ()) = Raised (Exception ''Target closed'')
   \<and> trace (run interrupted ()) =
       map passed (before_try @ take 7 scenario)
       @ [(Click theme_switcher, Some KeyboardInterrupt), (BrowserClose, None)]
   \<and> outcome (run interrupted ()) = Raised KeyboardInterrupt"
  by code_simp

subsection \<open>What leaves \<open>run\<close>\<close>

lemma run_steps_within:
  assumes "run_steps env w as = (t, w', r)" and "(a, x) \<in> set t"
  shows "a \<in> set as"
proof -
  from run_steps_calls [OF assms(1)] obtain n where "map fst t = take n as" by blast
  then have "set (map fst t) \<subseteq> set as" by (simp add: set_take_subset)
  moreover from assms(2) have "a \<in> set (map fst t)" by force
  ultimately show ?thesis by blast
qed

lemma before_try_not_scenario: "a \<in> set before_try \<Longrightarrow> a \<notin> set scenario"
  by (auto simp: before_try_def scenario_def section_defs five_times)

lemma close_not_scenario: "BrowserClose \<notin> set scenario"
  by (simp add: scenario_def section_defs five_times)

lemma enter_exit_not_scenario:
  "SyncPlaywrightEnter \<notin> set scenario" "SyncPlaywrightExit \<notin> set scenario"
  by (simp_all add: scenario_def section_defs five_times)

lemma harmless_passed [simp]: "harmless (passed a)"
  by (simp add: harmless_def passed_def)

lemma harmless_None [simp]: "harmless (a, None)"
  by (simp add: harmless_def)

lemma harmless_outside:
  "a \<notin> set scenario \<Longrightarrow> harmless (a, x) = (x = None)"
  by (cases x) (auto simp: harmless_def split: exn.splits)

lemma harmless_step:
  "a \<in> set scenario \<Longrightarrow> harmless (a, Some (Exception m))"
  by (simp add: harmless_def)

lemma not_harmless_interrupt [simp]: "\<not> harmless (a, Some KeyboardInterrupt)"
  by (simp add: harmless_def)

lemma run_returned_iff:
  "outcome (run env w) = Returned \<longleftrightarrow> (\<forall>x\<in>set (trace (run env w)). harmless x)"
proof -
  obtain t0 w0 r0 where before: "run_steps env w before_try = (t0, w0, r0)"
    by (cases "run_steps env w before_try") auto
  show ?thesis
  proof (cases r0)
    case (Some e)
    with before have b: "run_steps env w before_try = (t0, w0, Some e)" by simp
    from run_steps_Some [OF b] obtain k where k: "k < length before_try"
      and t0: "t0 = map passed (take k before_try) @ [(before_try ! k, Some e)]"
      by blast
    from k have "before_try ! k \<notin> set scenario"
      by (simp add: before_try_not_scenario)
    then have "\<not> harmless (before_try ! k, Some e)"
      by (simp add: harmless_outside)
    then show ?thesis
      by (auto simp: run_before_try_raises [OF b] t0)
  next
    case None
    with before have b: "run_steps env w before_try = (t0, w0, None)" by simp
    from run_steps_None [OF b] have t0: "t0 = map passed before_try" .
    obtain t1 w1 r1 where body: "run_steps env w0 scenario = (t1, w1, r1)"
      by (cases "run_steps env w0 scenario") auto
    show ?thesis
    proof (cases r1)
      case None
      with body have s: "run_steps env w0 scenario = (t1, w1, None)" by simp
      from run_steps_None [OF s] have t1: "t1 = map passed scenario" .
      obtain y w2 where c: "exec env w1 BrowserClose = (y, w2)"
        by (cases "exec env w1 BrowserClose") auto
      show ?thesis
        by (cases y)
          (auto simp: run_scenario_passes [OF b s c] t0 t1 harmless_outside close_not_scenario)
    next
      case (Some e)
      show ?thesis
      proof (cases e)
        case KeyboardInterrupt
        with Some body have s: "run_steps env w0 scenario = (t1, w1, Some KeyboardInterrupt)"
          by simp
        from run_steps_Some [OF s] obtain k where
          t1: "t1 = map passed (take k scenario) @ [(scenario ! k, Some KeyboardInterrupt)]"
          by blast
        obtain y w2 where c: "exec env w1 BrowserClose = (y, w2)"
          by (cases "exec env w1 BrowserClose") auto
        show ?thesis
          by (cases y) (auto simp: run_scenario_interrupted [OF b s c] t1)
      next
        case (Exception m)
        with Some body have s: "run_steps env w0 scenario = (t1, w1, Some (Exception m))"
          by simp
        from run_steps_Some [OF s] obtain k where k: "k < length scenario"
          and t1: "t1 = map passed (take k scenario) @ [(scenario ! k, Some (Exception m))]"
          by blast
        from k have h: "harmless (scenario ! k, Some (Exception m))"
          by (simp add: harmless_step)
        obtain x w2 where sh: "exec env w1 (Screenshot error_png) = (x, w2)"
          by (cases "exec env w1 (Screenshot error_png)") auto
        obtain y w3 where c: "exec env w2 BrowserClose = (y, w3)"
          by (cases "exec env w2 BrowserClose") auto
        show ?thesis
          using h
          by (cases x; cases y)
            (auto simp: run_scenario_raises [OF b s sh c] t0 t1 harmless_outside
              close_not_scenario scenario_no_error_png)
      qed
    qed
  qed
qed


text \<open>
  Claim C2, as the code has it. The process ends with exit code 0 exactly when no
  exception leaves the module: every call of the run returned, or the only call that
  raised is a step of the scenario that raised an \<open>Exception\<close>, which the handler of
  \<open>run\<close> catches. So the exit code is 0 when every step passes, and it is 0 as well
  when a step fails and the error screenshot and \<open>browser.close()\<close> return.
\<close>

theorem C2_exit_code:
  "exit_code (outcome (main env w)) = 0 \<longleftrightarrow> (\<forall>x\<in>set (trace (main env w)). harmless x)"
proof -
  have zero: "\<And>r. exit_code r = 0 \<longleftrightarrow> r = Returned"
    by (case_tac r) auto
  obtain x0 w0 where enter: "exec env w SyncPlaywrightEnter = (x0, w0)"
    by (cases "exec env w SyncPlaywrightEnter") auto
  show ?thesis
  proof (cases x0)
    case (Some e)
    with enter show ?thesis
      by (simp add: main_def zero harmless_outside enter_exit_not_scenario)
  next
    case None
    obtain x1 w1 where exit: "exec env (world (run env w0)) SyncPlaywrightExit = (x1, w1)"
      by (cases "exec env (world (run env w0)) SyncPlaywrightExit") auto
    show ?thesis
    proof (cases x1)
      case (Some e)
      with None enter exit show ?thesis
        by (simp add: main_def Let_def zero harmless_outside enter_exit_not_scenario)
    next
      case n: None
      with None enter exit show ?thesis
        by (simp add: main_def Let_def zero run_returned_iff)
    qed
  qed
qed


text \<open>C2 at a concrete run: no server listens, \<open>page.goto\<close> raises, the exit code is 0.\<close>

theorem C2_exit_code_witness:
  "exit_code (outcome (main goto_refused ())) = 0
   \<and> list_all harmless (trace (main goto_refused ()))"
proof -
  have "exit_code (outcome (main goto_refused ())) = 0"
    by code_simp
  with C2_exit_code [of goto_refused "()"] show ?thesis
    by (simp add: list_all_iff)
qed

text \<open>
  Claim C2 as stated does not hold: the first step raises, the handler catches the
  exception, \<open>run\<close> returns and the process ends with exit code 0.
\<close>

theorem C2_counterexample:
  "trace (main goto_refused ()) =
     [(SyncPlaywrightEnter, None),
      (Launch True, None), (NewContext, None), (NewPage, None), (OnConsole, None),
      (Goto ''http://127.0.0.1:3000/?notest=true'' ''networkidle'',
         Some (Exception ''net::ERR_CONNECTION_REFUSED'')),
      (Print ''An error occurred: net::ERR_CONNECTION_REFUSED'', None),
      (Screenshot ''jules-scratch/verification/error.png'', None),
      (BrowserClose, None),
      (SyncPlaywrightExit, None)]
   \<and> exit_code (outcome (main goto_refused ())) = 0"
  by code_simp

text \<open>
  Claim C3, as the code has it. An \<open>Exception\<close> raised by a step inside the \<open>try\<close> is
  caught: the handler prints \<open>An error occurred:\<close> with the text of the exception and
  calls the error screenshot, and \<open>browser.close()\<close> follows. \<open>run\<close> returns exactly when
  the error screenshot and \<open>browser.close()\<close> both return; an exception of one of them
  leaves \<open>run\<close>, the one of \<open>browser.close()\<close> first.
\<close>

theorem C3_exception_caught:
  assumes before: "run_steps env w before_try = (t0, w0, None)"
      and fails: "run_steps env w0 scenario = (t1, w1, Some (Exception m))"
      and shot: "exec env w1 (Screenshot error_png) = (x, w2)"
      and close: "exec env w2 BrowserClose = (y, w3)"
  shows "trace (run env w) =
           t0 @ t1 @ [(Print (''An error occurred: '' @ m), None),
                      (Screenshot error_png, x), (BrowserClose, y)]
         \<and> (outcome (run env w) = Returned \<longleftrightarrow> x = None \<and> y = None)
         \<and> (\<forall>e. y = None \<and> x = Some e \<longrightarrow> outcome (run env w) = Raised e)
         \<and> (\<forall>e. y = Some e \<longrightarrow> outcome (run env w) = Raised e)"
  by (cases x; cases y) (simp_all add: run_scenario_raises [OF before fails shot close])

text \<open>C3 at the run in which \<open>to_have_count(3)\<close> raises: \<open>run\<close> returns.\<close>

theorem C3_exception_caught_witness:
  "run_steps four_segments () before_try = (map passed before_try, (), None)
   \<and> run_steps four_segments () scenario
       = (map passed (take 71 scenario)
            @ [(ExpectToHaveCount (ChildLocator chart_container ''.chart-segment'') 3,
                Some (Exception ''Locator expected to have count 3, actual 4''))],
          (), Some (Exception ''Locator expected to have count 3, actual 4''))
   \<and> exec four_segments () (Screenshot error_png) = (None, ())
   \<and> exec four_segments () BrowserClose = (None, ())
   \<and> outcome (run four_segments ()) = Returned
   \<and> (Print ''An error occurred: Locator expected to have count 3, actual 4'', None)
        \<in> set (trace (run four_segments ()))"
  using C3_exception_caught [OF four_segments_before four_segments_scenario
      four_segments_shot four_segments_close]
    four_segments_before four_segments_scenario four_segments_shot four_segments_close
  by simp

text \<open>
  Claim C3 as stated does not hold: the launch of the browser is before the \<open>try\<close>, so
  when it raises nothing is printed, no screenshot is taken and the exception leaves
  \<open>run\<close> and the process.
\<close>

theorem C3_counterexample:
  "trace (main launch_fails ()) =
     [(SyncPlaywrightEnter, None),
      (Launch True, Some (Exception ''Executable not found'')),
      (SyncPlaywrightExit, None)]
   \<and> outcome (run launch_fails ()) = Raised (Exception ''Executable not found'')
   \<and> outcome (main launch_fails ()) = Raised (Exception ''Executable not found'')
   \<and> exit_code (outcome (main launch_fails ())) = 1"
  by code_simp

subsection \<open>Closing the browser\<close>

lemma try_except_within:
  assumes "try_except env w = (t, w', p)"
  shows "(BrowserClose, x) \<notin> set t"
proof -
  obtain t1 w1 r1 where body: "run_steps env w scenario = (t1, w1, r1)"
    by (cases "run_steps env w scenario") auto
  from run_steps_within [OF body] close_not_scenario have t1: "(BrowserClose, x) \<notin> set t1"
    by blast
  show ?thesis
  proof (cases r1)
    case None
    with assms body t1 show ?thesis by simp
  next
    case (Some e)
    show ?thesis
    proof (cases e)
      case KeyboardInterrupt
      with Some assms body t1 show ?thesis by simp
    next
      case (Exception m)
      obtain t2 w2 r2 where h: "run_steps env w1 (handler (Exception m)) = (t2, w2, r2)"
        by (cases "run_steps env w1 (handler (Exception m))") auto
      have "BrowserClose \<notin> set (handler (Exception m))"
        by (simp add: handler_def)
      with run_steps_within [OF h] have "(BrowserClose, x) \<notin> set t2"
        by blast
      with Exception Some assms body t1 h show ?thesis by auto
    qed
  qed
qed

text \<open>
  Claim C4, as the code has it. Once the calls before the \<open>try\<close> have returned, every
  way out of \<open>run\<close> (the scenario passes, a step raises an \<open>Exception\<close> or a
  \<open>KeyboardInterrupt\<close>, the handler raises) goes through \<open>browser.close()\<close>: it is the
  last call of the run and it is called exactly once.
\<close>

theorem C4_browser_closed:
  assumes before: "run_steps env w before_try = (t0, w0, None)"
  shows "trace (run env w) \<noteq> []
         \<and> fst (last (trace (run env w))) = BrowserClose
         \<and> length (filter (\<lambda>x. fst x = BrowserClose) (trace (run env w))) = 1"
proof -
  obtain t1 w1 p where body: "try_except env w0 = (t1, w1, p)"
    by (cases "try_except env w0") auto
  obtain y w2 where close: "exec env w1 BrowserClose = (y, w2)"
    by (cases "exec env w1 BrowserClose") auto
  have tr: "trace (run env w) = t0 @ t1 @ [(BrowserClose, y)]"
    using before body close by (cases y) (simp_all add: run_def del: try_except.simps)
  have "BrowserClose \<notin> set before_try"
    by (simp add: before_try_def)
  with run_steps_within [OF before] have "\<And>x. (BrowserClose, x) \<notin> set t0"
    by blast
  then have f0: "filter (\<lambda>x. fst x = BrowserClose) t0 = []"
    by (auto simp: filter_empty_conv)
  from try_except_within [OF body] have f1: "filter (\<lambda>x. fst x = BrowserClose) t1 = []"
    by (auto simp: filter_empty_conv)
  show ?thesis by (simp add: tr f0 f1)
qed

text \<open>C4 at the run in which the page is gone and the handler raises.\<close>

theorem C4_browser_closed_witness:
  "run_steps page_gone () before_try = (map passed before_try, (), None)
   \<and> outcome (run page_gone ()) = Raised (Exception ''Target closed'')
   \<and> fst (last (trace (run page_gone ()))) = BrowserClose
   \<and> length (filter (\<lambda>x. fst x = BrowserClose) (trace (run page_gone ()))) = 1"
proof -
  have h: "run_steps page_gone () before_try = (map passed before_try, (), None)"
    by code_simp
  have "outcome (run page_gone ()) = Raised (Exception ''Target closed'')"
    by code_simp
  with C4_browser_closed [OF h] h show ?thesis
    by simp
qed

text \<open>
  Claim C4 as stated does not hold on every way out of \<open>run\<close>: the browser is launched,
  \<open>browser.new_context()\<close> raises before the \<open>try\<close> is entered, and \<open>run\<close> is left
  without a call of \<open>browser.close()\<close>.
\<close>

theorem C4_counterexample:
  "trace (run context_fails ()) =
     [(Launch True, None), (NewContext, Some (Exception ''Protocol error''))]
   \<and> outcome (run context_fails ()) = Raised (Exception ''Protocol error'')"
  by code_simp

subsection \<open>The theme test\<close>

text \<open>
  Claim C5. The steps of the theme test begin, in this order, with: loading
  \<open>/?notest=true\<close> on the base address; the expectation that the root element does not
  have the class \<open>dark\<close>; one click on the theme switch; the expectation that the root
  element has the class \<open>dark\<close>; a reload of the page; the same expectation again. The
  expectations are \<open>not_to_have_class("dark")\<close> and \<open>to_have_class("dark")\<close> as the
  script calls them; how the class attribute is matched is the library's part.
\<close>

theorem C5_theme_sequence:
  "take 6 (filter is_theme_step scenario) =
     [Goto ''http://127.0.0.1:3000/?notest=true'' ''networkidle'',
      ExpectNotToHaveClass html_element (Str ''dark''),
      Click theme_switcher,
      ExpectToHaveClass html_element (Str ''dark''),
      Reload ''networkidle'',
      ExpectToHaveClass html_element (Str ''dark'')]"
  by code_simp

subsection \<open>The accordion test\<close>

text \<open>
  Claim C6, as the code has it. The activations of the accordion button and the
  expectations on its class are, in the order of the script: the button is expected
  not to have the class \<open>active\<close> (closed at the start); one click, and it is expected
  to have a class matching \<open>active\<close>; one click, and it is expected not to have the
  class \<open>active\<close>; five clicks, each followed by a sleep of fifty milliseconds, and it
  is expected to have a class matching \<open>active\<close>. The click that follows
  (\<open>Close it for next test\<close>) is followed by a wait only and has no expectation of its
  own: the next expectation comes after this click and one press of Enter, two
  activations, and is for a class matching \<open>active\<close>; the last comes after one more
  press of Enter and is for not having the class \<open>active\<close>. Every expectation agrees
  with the parity of the activations since the closed state.
\<close>

theorem C6_toggle_checks:
  "filter (\<lambda>a. accordion_activation a \<or> is_class_check proventos_accordion_btn a) scenario =
     [ExpectNotToHaveClass proventos_accordion_btn (Str ''active''),
      Click proventos_accordion_btn,
      ExpectToHaveClass proventos_accordion_btn (Regex ''active''),
      Click proventos_accordion_btn,
      ExpectNotToHaveClass proventos_accordion_btn (Str ''active''),
      Click proventos_accordion_btn, Click proventos_accordion_btn,
      Click proventos_accordion_btn, Click proventos_accordion_btn,
      Click proventos_accordion_btn,
      ExpectToHaveClass proventos_accordion_btn (Regex ''active''),
      Click proventos_accordion_btn,
      KeyboardPress ''Enter'',
      ExpectToHaveClass proventos_accordion_btn (Regex ''active''),
      KeyboardPress ''Enter'',
      ExpectNotToHaveClass proventos_accordion_btn (Str ''active'')]
   \<and> filter (is_class_check proventos_accordion_btn) scenario =
     [ExpectNotToHaveClass proventos_accordion_btn (Str ''active''),
      ExpectToHaveClass proventos_accordion_btn (Regex ''active''),
      ExpectNotToHaveClass proventos_accordion_btn (Str ''active''),
      ExpectToHaveClass proventos_accordion_btn (Regex ''active''),
      ExpectToHaveClass proventos_accordion_btn (Regex ''active''),
      ExpectNotToHaveClass proventos_accordion_btn (Str ''active'')]
   \<and> toggle_log accordion_activation proventos_accordion_btn 0 scenario =
     [(0, False), (1, True), (1, False), (5, True), (2, True), (1, False)]
   \<and> parity_ok False (toggle_log accordion_activation proventos_accordion_btn 0 scenario)
   \<and> sublist (concat (replicate 5 [Click proventos_accordion_btn, Sleep 50])) scenario
   \<and> accordion_reset = [Click proventos_accordion_btn, WaitForTimeout 500]
   \<and> filter is_expect accordion_reset = []"
proof -
  have acts: "filter (\<lambda>a. accordion_activation a \<or> is_class_check proventos_accordion_btn a)
      scenario =
     [ExpectNotToHaveClass proventos_accordion_btn (Str ''active''),
      Click proventos_accordion_btn,
      ExpectToHaveClass proventos_accordion_btn (Regex ''active''),
      Click proventos_accordion_btn,
      ExpectNotToHaveClass proventos_accordion_btn (Str ''active''),
      Click proventos_accordion_btn, Click proventos_accordion_btn,
      Click proventos_accordion_btn, Click proventos_accordion_btn,
      Click proventos_accordion_btn,
      ExpectToHaveClass proventos_accordion_btn (Regex ''active''),
      Click proventos_accordion_btn,
      KeyboardPress ''Enter'',
      ExpectToHaveClass proventos_accordion_btn (Regex ''active''),
      KeyboardPress ''Enter'',
      ExpectNotToHaveClass proventos_accordion_btn (Str ''active'')]"
    by code_simp
  have checks: "filter (is_class_check proventos_accordion_btn) scenario =
     [ExpectNotToHaveClass proventos_accordion_btn (Str ''active''),
      ExpectToHaveClass proventos_accordion_btn (Regex ''active''),
      ExpectNotToHaveClass proventos_accordion_btn (Str ''active''),
      ExpectToHaveClass proventos_accordion_btn (Regex ''active''),
      ExpectToHaveClass proventos_accordion_btn (Regex ''active''),
      ExpectNotToHaveClass proventos_accordion_btn (Str ''active'')]"
    by code_simp
  have log: "toggle_log accordion_activation proventos_accordion_btn 0 scenario =
     [(0, False), (1, True), (1, False), (5, True), (2, True), (1, False)]"
    by code_simp
  have par: "parity_ok False [(0, False), (1, True), (1, False), (5, True), (2, True), (1, False)]"
    by simp
  have "scenario =
      (theme_initial @ theme_dark @ theme_persistence @ theme_back @ accordion_start
        @ accordion_open @ accordion_close @ [Print ''[2.2] Stress-testing accordion...''])
      @ concat (replicate 5 [Click proventos_accordion_btn, Sleep 50])
      @ ([WaitForTimeout 500, ExpectToHaveClass proventos_accordion_btn (Regex ''active''),
          Print ''  - Accordion stable after rapid interaction.'']
         @ accordion_reset @ accordion_keyboard @ chart @ finish)"
    by (simp add: scenario_def accordion_rapid_def)
  then have burst: "sublist (concat (replicate 5 [Click proventos_accordion_btn, Sleep 50])) scenario"
    by (metis sublist_appendI)
  have reset: "accordion_reset = [Click proventos_accordion_btn, WaitForTimeout 500]"
    by (simp add: accordion_reset_def)
  have none: "filter is_expect accordion_reset = []"
    by (simp add: accordion_reset_def)
  from acts checks log par burst reset none show ?thesis
    by (simp only: simp_thms)
qed

text \<open>
  Claim C6 as stated does not hold for its last state: the click after the five rapid
  ones is followed by a wait only, and the fifth expectation on the button comes after
  two activations and is for a class matching \<open>active\<close>, not after one activation and
  for the absence of \<open>active\<close>.
\<close>

theorem C6_counterexample:
  "filter is_expect accordion_reset = []
   \<and> toggle_log accordion_activation proventos_accordion_btn 0 scenario ! 4 = (2, True)
   \<and> filter (is_class_check proventos_accordion_btn) scenario ! 4
       = ExpectToHaveClass proventos_accordion_btn (Regex ''active'')"
  by code_simp

text \<open>
  Claim C7. Seen as activations of the button, waits and expectations on its class, the
  keyboard test is the same sequence as the click test (open, then close): an
  activation, a wait of 500 milliseconds, the expectation of a class matching \<open>active\<close>,
  an activation, the same wait, the expectation \<open>not_to_have_class("active")\<close>. The
  keyboard test activates by a focus on the button and two presses of Enter, the click
  test by two clicks; between the closed state the click test ends in and the keyboard
  test there are six activations, an even number.
\<close>

theorem C7_keyboard_as_click:
  "List.map_filter accordion_view accordion_keyboard =
     List.map_filter accordion_view (accordion_open @ accordion_close)
   \<and> List.map_filter accordion_view accordion_keyboard =
     [Activation, Settle 500, HasClass (Regex ''active''),
      Activation, Settle 500, LacksClass (Str ''active'')]
   \<and> filter is_input accordion_keyboard =
     [Focus proventos_accordion_btn, KeyboardPress ''Enter'', KeyboardPress ''Enter'']
   \<and> filter is_input (accordion_open @ accordion_close) =
     [Click proventos_accordion_btn, Click proventos_accordion_btn]
   \<and> length (filter accordion_activation (accordion_rapid @ accordion_reset)) = 6"
  by code_simp

subsection \<open>The shape of a log\<close>

lemma run_shape:
  "(\<exists>k e. k < length before_try
       \<and> trace (run env w) = map passed (take k before_try) @ [(before_try ! k, Some e)])
   \<or> (\<exists>y. trace (run env w) = map passed (before_try @ scenario) @ [(BrowserClose, y)])
   \<or> (\<exists>k y. k < length scenario
       \<and> trace (run env w) = map passed (before_try @ take k scenario)
           @ [(scenario ! k, Some KeyboardInterrupt), (BrowserClose, y)])
   \<or> (\<exists>k m x y. k < length scenario
       \<and> trace (run env w) = map passed (before_try @ take k scenario)
           @ [(scenario ! k, Some (Exception m)),
              (Print (''An error occurred: '' @ m), None),
              (Screenshot error_png, x), (BrowserClose, y)])"
proof -
  obtain t0 w0 r0 where before: "run_steps env w before_try = (t0, w0, r0)"
    by (cases "run_steps env w before_try") auto
  show ?thesis
  proof (cases r0)
    case (Some e)
    with before have b: "run_steps env w before_try = (t0, w0, Some e)" by simp
    from run_steps_Some [OF b] obtain k where "k < length before_try"
      and "t0 = map passed (take k before_try) @ [(before_try ! k, Some e)]"
      by blast
    then have "\<exists>k e. k < length before_try
       \<and> trace (run env w) = map passed (take k before_try) @ [(before_try ! k, Some e)]"
      using run_before_try_raises [OF b] by auto
    then show ?thesis by blast
  next
    case None
    with before have b: "run_steps env w before_try = (t0, w0, None)" by simp
    from run_steps_None [OF b] have t0: "t0 = map passed before_try" .
    obtain t1 w1 r1 where body: "run_steps env w0 scenario = (t1, w1, r1)"
      by (cases "run_steps env w0 scenario") auto
    show ?thesis
    proof (cases r1)
      case None
      with body have s: "run_steps env w0 scenario = (t1, w1, None)" by simp
      from run_steps_None [OF s] have t1: "t1 = map passed scenario" .
      obtain y w2 where c: "exec env w1 BrowserClose = (y, w2)"
        by (cases "exec env w1 BrowserClose") auto
      have "trace (run env w) = map passed (before_try @ scenario) @ [(BrowserClose, y)]"
        by (simp add: run_scenario_passes [OF b s c] t0 t1)
      then show ?thesis by blast
    next
      case (Some e)
      show ?thesis
      proof (cases e)
        case KeyboardInterrupt
        with Some body have s: "run_steps env w0 scenario = (t1, w1, Some KeyboardInterrupt)"
          by simp
        from run_steps_Some [OF s] obtain k where k: "k < length scenario" and
          t1: "t1 = map passed (take k scenario) @ [(scenario ! k, Some KeyboardInterrupt)]"
          by blast
        obtain y w2 where c: "exec env w1 BrowserClose = (y, w2)"
          by (cases "exec env w1 BrowserClose") auto
        have "trace (run env w) = map passed (before_try @ take k scenario)
           @ [(scenario ! k, Some KeyboardInterrupt), (BrowserClose, y)]"
          by (simp add: run_scenario_interrupted [OF b s c] t0 t1)
        with k show ?thesis by blast
      next
        case (Exception m)
        with Some body have s: "run_steps env w0 scenario = (t1, w1, Some (Exception m))"
          by simp
        from run_steps_Some [OF s] obtain k where k: "k < length scenario"
          and t1: "t1 = map passed (take k scenario) @ [(scenario ! k, Some (Exception m))]"
          by blast
        obtain x w2 where sh: "exec env w1 (Screenshot error_png) = (x, w2)"
          by (cases "exec env w1 (Screenshot error_png)") auto
        obtain y w3 where c: "exec env w2 BrowserClose = (y, w3)"
          by (cases "exec env w2 BrowserClose") auto
        have "trace (run env w) = map passed (before_try @ take k scenario)
           @ [(scenario ! k, Some (Exception m)),
              (Print (''An error occurred: '' @ m), None),
              (Screenshot error_png, x), (BrowserClose, y)]"
          by (simp add: run_scenario_raises [OF b s sh c] t0 t1)
        with k show ?thesis by blast
      qed
    qed
  qed
qed



lemma calls_passed: "map fst (map passed xs @ rest) = xs @ map fst rest"
  by (induction xs) (simp_all add: passed_def)




lemma length_before_try: "length before_try = 4"
  by (simp add: before_try_def)

subsection \<open>The order of the calls\<close>


subsection \<open>The chart test\<close>

lemma chart_line_not_early: "Print ''  - SVG chart is visible and rendered.'' \<notin> set (before_try @ take 73 scenario)"
  by (simp add: before_try_def scenario_def section_defs five_times)

lemma chart_checks_early:
  "ExpectToBeVisible (ChildLocator chart_container ''svg.chart-svg'') \<in> set (take 72 scenario)"
  "ExpectToHaveCount (ChildLocator chart_container ''.chart-segment'') 3 \<in> set (take 72 scenario)"
  by (simp_all add: scenario_def section_defs five_times)

lemma passed_mem: "(a, None) \<in> set (map passed xs) \<longleftrightarrow> a \<in> set xs"
  by (auto simp: passed_def)

lemma chart_line_needs_checks:
  assumes "Print ''  - SVG chart is visible and rendered.'' \<in> set (before_try @ take k scenario)"
  shows "set (take 72 scenario) \<subseteq> set (before_try @ take k scenario)"
proof -
  have "\<not> k \<le> 73"
  proof
    assume "k \<le> 73"
    then have "set (take k scenario) \<subseteq> set (take 73 scenario)"
      by (rule set_take_subset_set_take)
    with assms chart_line_not_early show False by auto
  qed
  then have "72 \<le> k" by simp
  then have "set (take 72 scenario) \<subseteq> set (take k scenario)"
    by (rule set_take_subset_set_take)
  then show ?thesis by auto
qed


lemma chart_line_in_log:
  assumes tr: "t = map passed (before_try @ take k scenario) @ rest"
      and rest: "(Print ''  - SVG chart is visible and rendered.'', None) \<notin> set rest"
      and line: "(Print ''  - SVG chart is visible and rendered.'', None) \<in> set t"
  shows "(ExpectToBeVisible (ChildLocator chart_container ''svg.chart-svg''), None) \<in> set t
       \<and> (ExpectToHaveCount (ChildLocator chart_container ''.chart-segment'') 3, None) \<in> set t"
proof -
  from tr rest line
  have "(Print ''  - SVG chart is visible and rendered.'', None)
      \<in> set (map passed (before_try @ take k scenario))"
    by auto
  then have "Print ''  - SVG chart is visible and rendered.'' \<in> set (before_try @ take k scenario)"
    by (simp only: passed_mem)
  from chart_line_needs_checks [OF this] chart_checks_early
  have "ExpectToBeVisible (ChildLocator chart_container ''svg.chart-svg'')
          \<in> set (before_try @ take k scenario)"
    and "ExpectToHaveCount (ChildLocator chart_container ''.chart-segment'') 3
          \<in> set (before_try @ take k scenario)"
    by blast+
  then have "(ExpectToBeVisible (ChildLocator chart_container ''svg.chart-svg''), None)
          \<in> set (map passed (before_try @ take k scenario))"
    and "(ExpectToHaveCount (ChildLocator chart_container ''.chart-segment'') 3, None)
          \<in> set (map passed (before_try @ take k scenario))"
    by (simp_all only: passed_mem)
  with tr show ?thesis by (simp only: set_append Un_iff) blast
qed

lemma chart_line_after_checks:
  assumes line: "(Print ''  - SVG chart is visible and rendered.'', None) \<in> set (trace (run env w))"
  shows "(ExpectToBeVisible (ChildLocator chart_container ''svg.chart-svg''), None)
           \<in> set (trace (run env w))
       \<and> (ExpectToHaveCount (ChildLocator chart_container ''.chart-segment'') 3, None)
           \<in> set (trace (run env w))"
proof -
  from run_shape [of env w] consider
    (before) k e where "k < length before_try"
      "trace (run env w) = map passed (take k before_try) @ [(before_try ! k, Some e)]"
  | (passes) y where
      "trace (run env w) = map passed (before_try @ scenario) @ [(BrowserClose, y)]"
  | (interrupt) k y where "k < length scenario"
      "trace (run env w) = map passed (before_try @ take k scenario)
           @ [(scenario ! k, Some KeyboardInterrupt), (BrowserClose, y)]"
  | (raises) k m x y where "k < length scenario"
      "trace (run env w) = map passed (before_try @ take k scenario)
           @ [(scenario ! k, Some (Exception m)),
              (Print (''An error occurred: '' @ m), None),
              (Screenshot error_png, x), (BrowserClose, y)]"
    by blast
  then show ?thesis
  proof cases
    case before
    with line have "(Print ''  - SVG chart is visible and rendered.'', None)
        \<in> set (map passed (take k before_try))"
      by auto
    then have "Print ''  - SVG chart is visible and rendered.'' \<in> set (take k before_try)"
      by (simp only: passed_mem)
    then have "Print ''  - SVG chart is visible and rendered.'' \<in> set before_try"
      by (rule in_set_takeD)
    then show ?thesis by (simp add: before_try_def)
  next
    case passes
    then have "trace (run env w)
        = map passed (before_try @ take (length scenario) scenario) @ [(BrowserClose, y)]"
      by simp
    from chart_line_in_log [OF this _ line] show ?thesis by simp
  next
    case interrupt
    from chart_line_in_log [OF interrupt(2) _ line] show ?thesis by simp
  next
    case raises
    from chart_line_in_log [OF raises(2) _ line] show ?thesis by simp
  qed
qed

lemma all_pass_trace:
  "trace (run all_pass ()) = map passed (before_try @ scenario @ [BrowserClose])"
  by code_simp

text \<open>
  Claim C8. The chart test fills the two inputs, waits 500 milliseconds, and then
  expects the chart to be visible and the chart segments to have the count 3, through
  \<open>to_be_visible()\<close> and \<open>to_have_count(3)\<close>, the library's expectation of an exact number
  of elements; these are the expectations after the last input of the scenario. In every
  run the line \<open>SVG chart is visible and rendered\<close> is printed only when both
  expectations were called and returned.
\<close>

theorem C8_chart_checks:
  "filter (\<lambda>a. \<not> is_print a) chart =
     [Fill (PageLocator ''#salario-bruto-salario-liquido'') ''5000'',
      Fill (PageLocator ''#desconto-saude-salario-liquido'') ''100'',
      WaitForTimeout 500,
      ExpectToBeVisible (ChildLocator chart_container ''svg.chart-svg''),
      ExpectToHaveCount (ChildLocator chart_container ''.chart-segment'') 3,
      Screenshot ''jules-scratch/verification/06_svg_chart_restored.png'']
   \<and> filter is_expect (after_last is_input scenario) =
     [ExpectToBeVisible (ChildLocator chart_container ''svg.chart-svg''),
      ExpectToHaveCount (ChildLocator chart_container ''.chart-segment'') 3]
   \<and> ((Print ''  - SVG chart is visible and rendered.'', None) \<in> set (trace (run env w)) \<longrightarrow>
        (ExpectToBeVisible (ChildLocator chart_container ''svg.chart-svg''), None)
           \<in> set (trace (run env w))
        \<and> (ExpectToHaveCount (ChildLocator chart_container ''.chart-segment'') 3, None)
           \<in> set (trace (run env w)))"
proof -
  have "filter (\<lambda>a. \<not> is_print a) chart =
     [Fill (PageLocator ''#salario-bruto-salario-liquido'') ''5000'',
      Fill (PageLocator ''#desconto-saude-salario-liquido'') ''100'',
      WaitForTimeout 500,
      ExpectToBeVisible (ChildLocator chart_container ''svg.chart-svg''),
      ExpectToHaveCount (ChildLocator chart_container ''.chart-segment'') 3,
      Screenshot ''jules-scratch/verification/06_svg_chart_restored.png'']"
    by code_simp
  moreover have "filter is_expect (after_last is_input scenario) =
     [ExpectToBeVisible (ChildLocator chart_container ''svg.chart-svg''),
      ExpectToHaveCount (ChildLocator chart_container ''.chart-segment'') 3]"
    by code_simp
  ultimately show ?thesis
    using chart_line_after_checks [of env w] by blast
qed

text \<open>C8 at the run in which every call returns.\<close>

theorem C8_chart_checks_witness:
  "(Print ''  - SVG chart is visible and rendered.'', None) \<in> set (trace (run all_pass ()))
   \<and> (ExpectToHaveCount (ChildLocator chart_container ''.chart-segment'') 3, None)
        \<in> set (trace (run all_pass ()))"
proof -
  have "Print ''  - SVG chart is visible and rendered.'' \<in> set (before_try @ scenario @ [BrowserClose])"
    by (simp add: scenario_def section_defs)
  then have "(Print ''  - SVG chart is visible and rendered.'', None) \<in> set (trace (run all_pass ()))"
    by (simp only: all_pass_trace passed_mem)
  with C8_chart_checks [of all_pass "()"] show ?thesis
    by blast
qed

subsection \<open>The state the scenario leaves\<close>

text \<open>
  Claim C10. In a run in which no call raises, all the steps of the scenario are made.
  The theme switch is clicked twice, and the expectations on the root element are: not
  dark at the start, dark after the first click, dark after the reload, not dark after
  the second click; the only expectation after the last click is
  \<open>not_to_have_class("dark")\<close>. The accordion button gets eight clicks and two presses of
  Enter, ten activations, and the only expectation on it after the last activation is
  \<open>not_to_have_class("active")\<close>. All the expectations on the two elements agree with
  the parity of the activations, from the light theme and the closed accordion.
\<close>

theorem C10_baseline_restored:
  assumes "\<forall>x\<in>set (trace (run env w)). snd x = None"
  shows "trace (run env w) = map passed (before_try @ scenario @ [BrowserClose])
       \<and> toggle_log theme_activation html_element 0 scenario
           = [(0, False), (1, True), (0, True), (1, False)]
       \<and> length (filter theme_activation scenario) = 2
       \<and> filter (is_class_check html_element) (after_last theme_activation scenario)
           = [ExpectNotToHaveClass html_element (Str ''dark'')]
       \<and> length (filter (\<lambda>a. a = Click proventos_accordion_btn) scenario) = 8
       \<and> length (filter (\<lambda>a. a = KeyboardPress ''Enter'') scenario) = 2
       \<and> length (filter accordion_activation scenario) = 10
       \<and> filter (is_class_check proventos_accordion_btn) (after_last accordion_activation scenario)
           = [ExpectNotToHaveClass proventos_accordion_btn (Str ''active'')]
       \<and> parity_ok False (toggle_log theme_activation html_element 0 scenario)
       \<and> parity_ok False (toggle_log accordion_activation proventos_accordion_btn 0 scenario)"
proof -
  from run_shape [of env w] consider
    (before) k e where "k < length before_try"
      "trace (run env w) = map passed (take k before_try) @ [(before_try ! k, Some e)]"
  | (passes) y where
      "trace (run env w) = map passed (before_try @ scenario) @ [(BrowserClose, y)]"
  | (interrupt) k y where "k < length scenario"
      "trace (run env w) = map passed (before_try @ take k scenario)
           @ [(scenario ! k, Some KeyboardInterrupt), (BrowserClose, y)]"
  | (raises) k m x y where "k < length scenario"
      "trace (run env w) = map passed (before_try @ take k scenario)
           @ [(scenario ! k, Some (Exception m)),
              (Print (''An error occurred: '' @ m), None),
              (Screenshot error_png, x), (BrowserClose, y)]"
    by blast
  then have tr: "trace (run env w) = map passed (before_try @ scenario @ [BrowserClose])"
  proof cases
    case before
    with assms show ?thesis by simp
  next
    case passes
    with assms have "y = None" by simp
    with passes show ?thesis by (simp add: passed_def)
  next
    case interrupt
    with assms show ?thesis by simp
  next
    case raises
    with assms show ?thesis by simp
  qed
  have "toggle_log theme_activation html_element 0 scenario
           = [(0, False), (1, True), (0, True), (1, False)]"
    by code_simp
  moreover have "length (filter theme_activation scenario) = 2"
    by code_simp
  moreover have "filter (is_class_check html_element) (after_last theme_activation scenario)
           = [ExpectNotToHaveClass html_element (Str ''dark'')]"
    by code_simp
  moreover have "length (filter (\<lambda>a. a = Click proventos_accordion_btn) scenario) = 8"
    by code_simp
  moreover have "length (filter (\<lambda>a. a = KeyboardPress ''Enter'') scenario) = 2"
    by code_simp
  moreover have "length (filter accordion_activation scenario) = 10"
    by code_simp
  moreover have "filter (is_class_check proventos_accordion_btn)
        (after_last accordion_activation scenario)
           = [ExpectNotToHaveClass proventos_accordion_btn (Str ''active'')]"
    by code_simp
  moreover have "parity_ok False (toggle_log theme_activation html_element 0 scenario)"
    by code_simp
  moreover have
    "parity_ok False (toggle_log accordion_activation proventos_accordion_btn 0 scenario)"
    by code_simp
  ultimately show ?thesis using tr by blast
qed

text \<open>C10 at the run in which every call returns.\<close>

theorem C10_baseline_restored_witness:
  "list_all (\<lambda>x. snd x = None) (trace (run all_pass ()))
   \<and> trace (run all_pass ()) = map passed (before_try @ scenario @ [BrowserClose])
   \<and> length (filter accordion_activation scenario) = 10"
proof -
  have h: "\<forall>x\<in>set (trace (run all_pass ())). snd x = None"
    by (auto simp: all_pass_trace passed_def)
  from C10_baseline_restored [OF h] h show ?thesis
    by (simp add: list_all_iff)
qed

end
